theory Spec2Isabelle
  imports Main "HOL-Library.Word"
begin

section \<open>CurlShims: typed forwarders around libcurl's variadic calls\<close>

text \<open>
  \<^verbatim>\<open>CurlShims.c\<close> defines nine functions. Each body is one statement,
  \<^verbatim>\<open>return curl_easy_setopt(curl, option, parameter);\<close> or
  \<^verbatim>\<open>return curl_easy_getinfo(curl, info, value);\<close>.
  The two callees belong to libcurl, not to this repository, so the embedding takes
  them as a parameter: a record of two state transformers. Everything else is
  translated from the nine function bodies.
\<close>

subsection \<open>C values\<close>

text \<open>
  The target is an LP64 platform (PostKit is a macOS application): pointers and
  \<^verbatim>\<open>long\<close> are 64 bits wide, \<^verbatim>\<open>curl_off_t\<close> is a signed 64-bit integer on
  every platform, and the three enumerations \<^verbatim>\<open>CURLoption\<close>, \<^verbatim>\<open>CURLINFO\<close> and
  \<^verbatim>\<open>CURLcode\<close> have the width of \<^verbatim>\<open>int\<close>. A pointer is its address; the null
  pointer is address 0. A \<^verbatim>\<open>double\<close> is carried as its 64-bit pattern: no function here
  computes with it.
\<close>

type_synonym addr = "64 word"
type_synonym long = "64 word"
type_synonym curl_off_t = "64 word"
type_synonym CURLoption = "32 word"
type_synonym CURLINFO = "32 word"
type_synonym CURLcode = "32 word"

definition NULL :: addr where
  "NULL = 0"

text \<open>
  The third argument of \<^verbatim>\<open>curl_easy_setopt\<close> and \<^verbatim>\<open>curl_easy_getinfo\<close> travels
  through the ellipsis of the prototype. A variadic argument is passed with the static
  type it has at the call site after the default argument promotions, which leave
  \<^verbatim>\<open>long\<close>, \<^verbatim>\<open>curl_off_t\<close> and every pointer type as they are. One constructor per
  static type that occurs in \<^verbatim>\<open>CurlShims.c\<close>:
\<close>

datatype vararg =
    Long long                \<comment> \<open>\<^verbatim>\<open>long\<close>\<close>
  | CharPtr addr             \<comment> \<open>\<^verbatim>\<open>const char *\<close>\<close>
  | VoidPtr addr             \<comment> \<open>\<^verbatim>\<open>void *\<close>\<close>
  | OffT curl_off_t          \<comment> \<open>\<^verbatim>\<open>curl_off_t\<close>\<close>
  | WriteFn addr             \<comment> \<open>\<^verbatim>\<open>size_t (*)(char *, size_t, size_t, void *)\<close>\<close>
  | ProgressFn addr          \<comment> \<open>\<^verbatim>\<open>int (*)(void *, curl_off_t, curl_off_t, curl_off_t, curl_off_t)\<close>\<close>
  | DoublePtr addr           \<comment> \<open>\<^verbatim>\<open>double *\<close>\<close>
  | LongPtr addr             \<comment> \<open>\<^verbatim>\<open>long *\<close>\<close>

subsection \<open>The world outside the shim\<close>

text \<open>
  What a call into libcurl can read and change: the objects in memory (the destination
  of \<^verbatim>\<open>curl_easy_getinfo\<close> among them) and libcurl's private state, of a type the shim
  knows nothing about. \<^verbatim>\<open>CurlShims.c\<close> declares no object of its own, so the world
  has no component that belongs to the shim. An object in memory is a \<^verbatim>\<open>long\<close>, a
  \<^verbatim>\<open>double\<close>, or anything else (a string, user data) as its bytes.
\<close>

datatype cobj =
    LongObj long
  | DoubleObj "64 word"
  | Bytes "8 word list"

record 'l world =
  heap :: "addr \<rightharpoonup> cobj"
  libstate :: 'l

text \<open>
  libcurl, as far as the shim uses it. A call takes the world and either returns a
  status code with the world it leaves, or does not return (\<open>None\<close>).
\<close>

record 'l libcurl =
  curl_easy_setopt ::
    "addr \<Rightarrow> CURLoption \<Rightarrow> vararg \<Rightarrow> 'l world \<Rightarrow> (CURLcode \<times> 'l world) option"
  curl_easy_getinfo ::
    "addr \<Rightarrow> CURLINFO \<Rightarrow> vararg \<Rightarrow> 'l world \<Rightarrow> (CURLcode \<times> 'l world) option"

subsection \<open>The nine forwarders of \<^verbatim>\<open>CurlShims.c\<close>\<close>

text \<open>
  Each takes the library first, then the parameters of the C function in their order,
  then the world. The destination parameter \<^verbatim>\<open>value\<close> of the two getinfo forwarders
  is written \<open>val\<close>.
\<close>

definition curl_easy_setopt_long ::
  "'l libcurl \<Rightarrow> addr \<Rightarrow> CURLoption \<Rightarrow> long \<Rightarrow> 'l world \<Rightarrow> (CURLcode \<times> 'l world) option" where
  "curl_easy_setopt_long lib curl option parameter =
     curl_easy_setopt lib curl option (Long parameter)"

definition curl_easy_setopt_string ::
  "'l libcurl \<Rightarrow> addr \<Rightarrow> CURLoption \<Rightarrow> addr \<Rightarrow> 'l world \<Rightarrow> (CURLcode \<times> 'l world) option" where
  "curl_easy_setopt_string lib curl option parameter =
     curl_easy_setopt lib curl option (CharPtr parameter)"

definition curl_easy_setopt_pointer ::
  "'l libcurl \<Rightarrow> addr \<Rightarrow> CURLoption \<Rightarrow> addr \<Rightarrow> 'l world \<Rightarrow> (CURLcode \<times> 'l world) option" where
  "curl_easy_setopt_pointer lib curl option parameter =
     curl_easy_setopt lib curl option (VoidPtr parameter)"

definition curl_easy_setopt_int64 ::
  "'l libcurl \<Rightarrow> addr \<Rightarrow> CURLoption \<Rightarrow> curl_off_t \<Rightarrow> 'l world \<Rightarrow> (CURLcode \<times> 'l world) option" where
  "curl_easy_setopt_int64 lib curl option parameter =
     curl_easy_setopt lib curl option (OffT parameter)"

definition curl_easy_setopt_write_callback ::
  "'l libcurl \<Rightarrow> addr \<Rightarrow> CURLoption \<Rightarrow> addr \<Rightarrow> 'l world \<Rightarrow> (CURLcode \<times> 'l world) option" where
  "curl_easy_setopt_write_callback lib curl option callback =
     curl_easy_setopt lib curl option (WriteFn callback)"

definition curl_easy_setopt_header_callback ::
  "'l libcurl \<Rightarrow> addr \<Rightarrow> CURLoption \<Rightarrow> addr \<Rightarrow> 'l world \<Rightarrow> (CURLcode \<times> 'l world) option" where
  "curl_easy_setopt_header_callback lib curl option callback =
     curl_easy_setopt lib curl option (WriteFn callback)"

definition curl_easy_setopt_progress_callback ::
  "'l libcurl \<Rightarrow> addr \<Rightarrow> CURLoption \<Rightarrow> addr \<Rightarrow> 'l world \<Rightarrow> (CURLcode \<times> 'l world) option" where
  "curl_easy_setopt_progress_callback lib curl option callback =
     curl_easy_setopt lib curl option (ProgressFn callback)"

definition curl_easy_getinfo_double ::
  "'l libcurl \<Rightarrow> addr \<Rightarrow> CURLINFO \<Rightarrow> addr \<Rightarrow> 'l world \<Rightarrow> (CURLcode \<times> 'l world) option" where
  "curl_easy_getinfo_double lib curl info val =
     curl_easy_getinfo lib curl info (DoublePtr val)"

definition curl_easy_getinfo_long ::
  "'l libcurl \<Rightarrow> addr \<Rightarrow> CURLINFO \<Rightarrow> addr \<Rightarrow> 'l world \<Rightarrow> (CURLcode \<times> 'l world) option" where
  "curl_easy_getinfo_long lib curl info val =
     curl_easy_getinfo lib curl info (LongPtr val)"

subsection \<open>A call from the foreign caller\<close>

text \<open>
  To speak about every forwarder at once: one constructor per exported function,
  carrying that function's parameter list, and the dispatch to the function.
\<close>

datatype invocation =
    Setopt_long addr CURLoption long
  | Setopt_string addr CURLoption addr
  | Setopt_pointer addr CURLoption addr
  | Setopt_int64 addr CURLoption curl_off_t
  | Setopt_write_callback addr CURLoption addr
  | Setopt_header_callback addr CURLoption addr
  | Setopt_progress_callback addr CURLoption addr
  | Getinfo_double addr CURLINFO addr
  | Getinfo_long addr CURLINFO addr

primrec invoke ::
  "'l libcurl \<Rightarrow> invocation \<Rightarrow> 'l world \<Rightarrow> (CURLcode \<times> 'l world) option" where
  "invoke lib (Setopt_long curl option parameter) =
     curl_easy_setopt_long lib curl option parameter"
| "invoke lib (Setopt_string curl option parameter) =
     curl_easy_setopt_string lib curl option parameter"
| "invoke lib (Setopt_pointer curl option parameter) =
     curl_easy_setopt_pointer lib curl option parameter"
| "invoke lib (Setopt_int64 curl option parameter) =
     curl_easy_setopt_int64 lib curl option parameter"
| "invoke lib (Setopt_write_callback curl option callback) =
     curl_easy_setopt_write_callback lib curl option callback"
| "invoke lib (Setopt_header_callback curl option callback) =
     curl_easy_setopt_header_callback lib curl option callback"
| "invoke lib (Setopt_progress_callback curl option callback) =
     curl_easy_setopt_progress_callback lib curl option callback"
| "invoke lib (Getinfo_double curl info val) =
     curl_easy_getinfo_double lib curl info val"
| "invoke lib (Getinfo_long curl info val) =
     curl_easy_getinfo_long lib curl info val"

text \<open>
  The typed value an invocation hands to its function: the third parameter, with the
  C type the function's signature declares for it.
\<close>

primrec received :: "invocation \<Rightarrow> vararg" where
  "received (Setopt_long curl option parameter) = Long parameter"
| "received (Setopt_string curl option parameter) = CharPtr parameter"
| "received (Setopt_pointer curl option parameter) = VoidPtr parameter"
| "received (Setopt_int64 curl option parameter) = OffT parameter"
| "received (Setopt_write_callback curl option callback) = WriteFn callback"
| "received (Setopt_header_callback curl option callback) = WriteFn callback"
| "received (Setopt_progress_callback curl option callback) = ProgressFn callback"
| "received (Getinfo_double curl info val) = DoublePtr val"
| "received (Getinfo_long curl info val) = LongPtr val"

subsection \<open>The specification's side: the underlying generic call\<close>

text \<open>
  A call that crosses the boundary into libcurl, and what the specification calls
  ``the underlying generic call for the same arguments'': the handle, the identifier
  and the typed value of the invocation, given to the generic entry point of the same
  operation.
\<close>

datatype call =
    SetoptCall addr CURLoption vararg
  | GetinfoCall addr CURLINFO vararg

primrec perform ::
  "'l libcurl \<Rightarrow> call \<Rightarrow> 'l world \<Rightarrow> (CURLcode \<times> 'l world) option" where
  "perform lib (SetoptCall curl option arg) = curl_easy_setopt lib curl option arg"
| "perform lib (GetinfoCall curl info arg) = curl_easy_getinfo lib curl info arg"

primrec passed :: "call \<Rightarrow> vararg" where
  "passed (SetoptCall curl option arg) = arg"
| "passed (GetinfoCall curl info arg) = arg"

primrec generic_call :: "invocation \<Rightarrow> call" where
  "generic_call (Setopt_long curl option parameter) =
     SetoptCall curl option (Long parameter)"
| "generic_call (Setopt_string curl option parameter) =
     SetoptCall curl option (CharPtr parameter)"
| "generic_call (Setopt_pointer curl option parameter) =
     SetoptCall curl option (VoidPtr parameter)"
| "generic_call (Setopt_int64 curl option parameter) =
     SetoptCall curl option (OffT parameter)"
| "generic_call (Setopt_write_callback curl option callback) =
     SetoptCall curl option (WriteFn callback)"
| "generic_call (Setopt_header_callback curl option callback) =
     SetoptCall curl option (WriteFn callback)"
| "generic_call (Setopt_progress_callback curl option callback) =
     SetoptCall curl option (ProgressFn callback)"
| "generic_call (Getinfo_double curl info val) =
     GetinfoCall curl info (DoublePtr val)"
| "generic_call (Getinfo_long curl info val) =
     GetinfoCall curl info (LongPtr val)"


subsection \<open>Observing the boundary\<close>

text \<open>
  To see which calls a forwarder makes, any library can be wrapped into one that
  also keeps, in its private state, the list of the calls it has received, oldest
  first, and otherwise behaves as the library it wraps. The forwarders themselves
  are not changed: they run against the wrapped library as against any other.
\<close>

definition calls_of :: "(call list \<times> 'l) world \<Rightarrow> call list" where
  "calls_of w = fst (libstate w)"

definition untraced :: "(call list \<times> 'l) world \<Rightarrow> 'l world" where
  "untraced w = \<lparr>heap = heap w, libstate = snd (libstate w)\<rparr>"

definition retraced :: "call list \<Rightarrow> 'l world \<Rightarrow> (call list \<times> 'l) world" where
  "retraced cs w = \<lparr>heap = heap w, libstate = (cs, libstate w)\<rparr>"

definition logged ::
  "call \<Rightarrow> (call list \<times> 'l) world \<Rightarrow> (CURLcode \<times> 'l world) option
     \<Rightarrow> (CURLcode \<times> (call list \<times> 'l) world) option" where
  "logged c w r =
     (case r of
        None \<Rightarrow> None
      | Some (rc, w') \<Rightarrow> Some (rc, retraced (calls_of w @ [c]) w'))"

definition traced :: "'l libcurl \<Rightarrow> (call list \<times> 'l) libcurl" where
  "traced lib =
     \<lparr>curl_easy_setopt = (\<lambda>curl option arg w.
        logged (SetoptCall curl option arg) w
          (curl_easy_setopt lib curl option arg (untraced w))),
      curl_easy_getinfo = (\<lambda>curl info arg w.
        logged (GetinfoCall curl info arg) w
          (curl_easy_getinfo lib curl info arg (untraced w)))\<rparr>"

text \<open>
  What an invocation that started in world \<open>tw\<close> did, when it returns: its status code,
  the calls the library received since \<open>tw\<close>, and the world it left (memory and the
  library's own state).
\<close>

definition during ::
  "(call list \<times> 'l) world \<Rightarrow> (CURLcode \<times> (call list \<times> 'l) world) option
     \<Rightarrow> (CURLcode \<times> call list \<times> 'l world) option" where
  "during tw r =
     map_option (\<lambda>(rc, tw'). (rc, drop (length (calls_of tw)) (calls_of tw'), untraced tw')) r"


subsection \<open>A test double of libcurl\<close>

text \<open>
  A small stand-in for libcurl, to run the forwarders on concrete inputs. It rejects
  a null handle, remembers the options set (newest first), and answers every
  information request on a live handle by storing the response code 200, or the
  duration 1.5 (as its IEEE 754 pattern), at the destination it is given. The status
  codes and the information identifiers are those of \<^verbatim>\<open>curl/curl.h\<close>.
\<close>

definition CURLE_OK :: CURLcode where
  "CURLE_OK = 0"

definition CURLE_BAD_FUNCTION_ARGUMENT :: CURLcode where
  "CURLE_BAD_FUNCTION_ARGUMENT = 43"

definition CURLE_UNKNOWN_OPTION :: CURLcode where
  "CURLE_UNKNOWN_OPTION = 48"

definition CURLOPT_TIMEOUT :: CURLoption where
  "CURLOPT_TIMEOUT = 13"

definition CURLOPT_URL :: CURLoption where
  "CURLOPT_URL = 10002"

definition CURLOPT_WRITEDATA :: CURLoption where
  "CURLOPT_WRITEDATA = 10001"

definition CURLOPT_WRITEFUNCTION :: CURLoption where
  "CURLOPT_WRITEFUNCTION = 20011"

definition CURLOPT_HEADERFUNCTION :: CURLoption where
  "CURLOPT_HEADERFUNCTION = 20079"

definition CURLOPT_XFERINFOFUNCTION :: CURLoption where
  "CURLOPT_XFERINFOFUNCTION = 20219"


definition CURLINFO_RESPONSE_CODE :: CURLINFO where
  "CURLINFO_RESPONSE_CODE = 0x200002"

definition CURLINFO_TOTAL_TIME :: CURLINFO where
  "CURLINFO_TOTAL_TIME = 0x300003"

definition stub :: "((CURLoption \<times> vararg) list) libcurl" where
  "stub =
     \<lparr>curl_easy_setopt = (\<lambda>curl option arg w.
        if curl = NULL then Some (CURLE_BAD_FUNCTION_ARGUMENT, w)
        else Some (CURLE_OK, w\<lparr>libstate := (option, arg) # libstate w\<rparr>)),
      curl_easy_getinfo = (\<lambda>curl info arg w.
        if curl = NULL then Some (CURLE_BAD_FUNCTION_ARGUMENT, w)
        else (case arg of
                LongPtr p \<Rightarrow> Some (CURLE_OK, w\<lparr>heap := (heap w)(p \<mapsto> LongObj 200)\<rparr>)
              | DoublePtr p \<Rightarrow>
                  Some (CURLE_OK, w\<lparr>heap := (heap w)(p \<mapsto> DoubleObj 0x3FF8000000000000)\<rparr>)
              | _ \<Rightarrow> Some (CURLE_UNKNOWN_OPTION, w)))\<rparr>"

definition fresh :: "((CURLoption \<times> vararg) list) world" where
  "fresh = \<lparr>heap = Map.empty, libstate = []\<rparr>"

definition fresh_traced :: "(call list \<times> (CURLoption \<times> vararg) list) world" where
  "fresh_traced = \<lparr>heap = Map.empty, libstate = ([], [])\<rparr>"

subsection \<open>The exported interface\<close>

text \<open>
  The declarations of \<^verbatim>\<open>include/CurlShims.h\<close> (lines 9 to 18) and the function
  definitions of \<^verbatim>\<open>CurlShims.c\<close>, as data: result type, name, parameter types, and
  whether the parameter list ends in an ellipsis. None of the definitions is
  \<^verbatim>\<open>static\<close>, so each is an entry point of the library.
\<close>

datatype ctype =
    T_void | T_char | T_int | T_long | T_double | T_size_t | T_curl_off_t
  | T_CURL | T_CURLcode | T_CURLoption | T_CURLINFO
  | T_const ctype
  | T_ptr ctype
  | T_fn ctype "ctype list"

datatype prototype =
  Prototype (fn_result: ctype) (fn_name: string) (fn_params: "ctype list") (fn_variadic: bool)

text \<open>\<^verbatim>\<open>size_t (*)(char *ptr, size_t size, size_t nmemb, void *userdata)\<close>\<close>

definition write_callback_t :: ctype where
  "write_callback_t = T_ptr (T_fn T_size_t [T_ptr T_char, T_size_t, T_size_t, T_ptr T_void])"

text \<open>\<^verbatim>\<open>int (*)(void *clientp, curl_off_t dltotal, curl_off_t dlnow, curl_off_t ultotal, curl_off_t ulnow)\<close>\<close>

definition progress_callback_t :: ctype where
  "progress_callback_t =
     T_ptr (T_fn T_int [T_ptr T_void, T_curl_off_t, T_curl_off_t, T_curl_off_t, T_curl_off_t])"

definition CurlShims_h :: "prototype list" where
  "CurlShims_h =
    [Prototype T_CURLcode ''curl_easy_setopt_long''
       [T_ptr T_CURL, T_CURLoption, T_long] False,
     Prototype T_CURLcode ''curl_easy_setopt_string''
       [T_ptr T_CURL, T_CURLoption, T_ptr (T_const T_char)] False,
     Prototype T_CURLcode ''curl_easy_setopt_pointer''
       [T_ptr T_CURL, T_CURLoption, T_ptr T_void] False,
     Prototype T_CURLcode ''curl_easy_setopt_int64''
       [T_ptr T_CURL, T_CURLoption, T_curl_off_t] False,
     Prototype T_CURLcode ''curl_easy_setopt_write_callback''
       [T_ptr T_CURL, T_CURLoption, write_callback_t] False,
     Prototype T_CURLcode ''curl_easy_setopt_header_callback''
       [T_ptr T_CURL, T_CURLoption, write_callback_t] False,
     Prototype T_CURLcode ''curl_easy_setopt_progress_callback''
       [T_ptr T_CURL, T_CURLoption, progress_callback_t] False,
     Prototype T_CURLcode ''curl_easy_getinfo_double''
       [T_ptr T_CURL, T_CURLINFO, T_ptr T_double] False,
     Prototype T_CURLcode ''curl_easy_getinfo_long''
       [T_ptr T_CURL, T_CURLINFO, T_ptr T_long] False]"

definition CurlShims_c :: "prototype list" where
  "CurlShims_c =
    [Prototype T_CURLcode ''curl_easy_setopt_long''
       [T_ptr T_CURL, T_CURLoption, T_long] False,
     Prototype T_CURLcode ''curl_easy_setopt_string''
       [T_ptr T_CURL, T_CURLoption, T_ptr (T_const T_char)] False,
     Prototype T_CURLcode ''curl_easy_setopt_pointer''
       [T_ptr T_CURL, T_CURLoption, T_ptr T_void] False,
     Prototype T_CURLcode ''curl_easy_setopt_int64''
       [T_ptr T_CURL, T_CURLoption, T_curl_off_t] False,
     Prototype T_CURLcode ''curl_easy_setopt_write_callback''
       [T_ptr T_CURL, T_CURLoption, write_callback_t] False,
     Prototype T_CURLcode ''curl_easy_setopt_header_callback''
       [T_ptr T_CURL, T_CURLoption, write_callback_t] False,
     Prototype T_CURLcode ''curl_easy_setopt_progress_callback''
       [T_ptr T_CURL, T_CURLoption, progress_callback_t] False,
     Prototype T_CURLcode ''curl_easy_getinfo_double''
       [T_ptr T_CURL, T_CURLINFO, T_ptr T_double] False,
     Prototype T_CURLcode ''curl_easy_getinfo_long''
       [T_ptr T_CURL, T_CURLINFO, T_ptr T_long] False]"

text \<open>
  The specification's list (section 6): session configuration with a long, a string,
  a generic pointer or a 64-bit integer; three shapes of callback registration; and
  information retrieval into a double or a long.
\<close>

datatype operation = Configure | Register_callback | Retrieve_info

datatype shape =
    Long_value | String_value | Generic_pointer | Int64_value
  | Data_write | Header_write | Progress
  | Double_result | Long_result

definition spec_interface :: "(operation \<times> shape) list" where
  "spec_interface =
    [(Configure, Long_value), (Configure, String_value),
     (Configure, Generic_pointer), (Configure, Int64_value),
     (Register_callback, Data_write), (Register_callback, Header_write),
     (Register_callback, Progress),
     (Retrieve_info, Double_result), (Retrieve_info, Long_result)]"

text \<open>
  Which pair of the list a prototype serves, read from its signature: the result is a
  \<^verbatim>\<open>CURLcode\<close>, the first parameter the session handle, the second tells
  configuration (\<^verbatim>\<open>CURLoption\<close>) from retrieval (\<^verbatim>\<open>CURLINFO\<close>), the third is the
  value. The data-write and the header-write shape have one and the same C type; the
  name of the function is all that tells them apart.
\<close>

definition classify :: "prototype \<Rightarrow> (operation \<times> shape) option" where
  "classify p =
     (case fn_params p of
        [h, k, v] \<Rightarrow>
          if \<not> (fn_result p = T_CURLcode \<and> h = T_ptr T_CURL \<and> \<not> fn_variadic p) then None
          else if k = T_CURLoption then
            (if v = T_long then Some (Configure, Long_value)
             else if v = T_ptr (T_const T_char) then Some (Configure, String_value)
             else if v = T_ptr T_void then Some (Configure, Generic_pointer)
             else if v = T_curl_off_t then Some (Configure, Int64_value)
             else if v = write_callback_t then
               (if fn_name p = ''curl_easy_setopt_header_callback''
                then Some (Register_callback, Header_write)
                else Some (Register_callback, Data_write))
             else if v = progress_callback_t then Some (Register_callback, Progress)
             else None)
          else if k = T_CURLINFO then
            (if v = T_ptr T_double then Some (Retrieve_info, Double_result)
             else if v = T_ptr T_long then Some (Retrieve_info, Long_result)
             else None)
          else None
      | _ \<Rightarrow> None)"

section \<open>Basic facts\<close>

lemma invoke_generic_call: "invoke lib i = perform lib (generic_call i)"
  by (cases i)
    (simp_all add: curl_easy_setopt_long_def curl_easy_setopt_string_def
      curl_easy_setopt_pointer_def curl_easy_setopt_int64_def
      curl_easy_setopt_write_callback_def curl_easy_setopt_header_callback_def
      curl_easy_setopt_progress_callback_def curl_easy_getinfo_double_def
      curl_easy_getinfo_long_def)

lemma passed_generic_call: "passed (generic_call i) = received i"
  by (cases i) simp_all

lemma calls_of_retraced: "calls_of (retraced cs w) = cs"
  by (simp add: calls_of_def retraced_def)


lemma perform_traced: "perform (traced lib) c w = logged c w (perform lib c (untraced w))"
  by (cases c) (simp_all add: traced_def)

lemma logged_Some:
  "logged c w r = Some (rc, w') \<longleftrightarrow>
     (\<exists>w0. r = Some (rc, w0) \<and> w' = retraced (calls_of w @ [c]) w0)"
  by (auto simp: logged_def split: option.splits)






section \<open>Properties\<close>

subsection \<open>Pass-through of the configuration forwarders\<close>

text \<open>
  C1. For every handle, option identifier and value, each of the seven setopt
  forwarders returns exactly what \<^verbatim>\<open>curl_easy_setopt\<close> returns for the same handle,
  option and value, the value being passed with the C type of the forwarder's
  parameter. ``Returns'' covers both outcomes: the same status code when the library
  returns, and no return when the library does not.
\<close>

theorem setopt_forwarders_return_library_result:
  "map_option fst (curl_easy_setopt_long lib curl option l w) =
     map_option fst (curl_easy_setopt lib curl option (Long l) w)
   \<and> map_option fst (curl_easy_setopt_string lib curl option p w) =
     map_option fst (curl_easy_setopt lib curl option (CharPtr p) w)
   \<and> map_option fst (curl_easy_setopt_pointer lib curl option p w) =
     map_option fst (curl_easy_setopt lib curl option (VoidPtr p) w)
   \<and> map_option fst (curl_easy_setopt_int64 lib curl option n w) =
     map_option fst (curl_easy_setopt lib curl option (OffT n) w)
   \<and> map_option fst (curl_easy_setopt_write_callback lib curl option f w) =
     map_option fst (curl_easy_setopt lib curl option (WriteFn f) w)
   \<and> map_option fst (curl_easy_setopt_header_callback lib curl option f w) =
     map_option fst (curl_easy_setopt lib curl option (WriteFn f) w)
   \<and> map_option fst (curl_easy_setopt_progress_callback lib curl option g w) =
     map_option fst (curl_easy_setopt lib curl option (ProgressFn g) w)"
  by (simp add: curl_easy_setopt_long_def curl_easy_setopt_string_def
      curl_easy_setopt_pointer_def curl_easy_setopt_int64_def
      curl_easy_setopt_write_callback_def curl_easy_setopt_header_callback_def
      curl_easy_setopt_progress_callback_def)

text \<open>
  On the test double: a timeout set on a live handle is accepted, a URL set on the
  null handle is refused, and each forwarder returns the library's answer.
\<close>

theorem setopt_forwarders_return_library_result_witness:
  "map_option fst (curl_easy_setopt_long stub 0x1000 CURLOPT_TIMEOUT 30 fresh) = Some CURLE_OK
   \<and> map_option fst (curl_easy_setopt_string stub NULL CURLOPT_URL 0x4000 fresh) =
     Some CURLE_BAD_FUNCTION_ARGUMENT
   \<and> map_option fst
       (curl_easy_setopt_progress_callback stub 0x1000 CURLOPT_XFERINFOFUNCTION 0x7000 fresh) =
     Some CURLE_OK"
  using setopt_forwarders_return_library_result
    [of stub "0x1000" CURLOPT_TIMEOUT 30 fresh "0x4000" 0 "0x6000" "0x7000"]
    setopt_forwarders_return_library_result
    [of stub NULL CURLOPT_URL 30 fresh "0x4000" 0 "0x6000" "0x7000"]
    setopt_forwarders_return_library_result
    [of stub "0x1000" CURLOPT_XFERINFOFUNCTION 30 fresh "0x4000" 0 "0x6000" "0x7000"]
  by (simp add: stub_def NULL_def)

subsection \<open>Pass-through of the information forwarders\<close>

text \<open>
  C2. For every handle, information identifier and destination pointer, each of the
  two getinfo forwarders hands the destination to \<^verbatim>\<open>curl_easy_getinfo\<close> as the pointer
  it received (first and second conjunct, read off the list of calls the library has
  seen: when the forwarder returns, that list has grown by exactly the call with this
  handle, identifier and destination), returns the status code \<^verbatim>\<open>curl_easy_getinfo\<close>
  returns for these arguments, and leaves at the destination the object that call stored
  there (third and fourth conjunct).
\<close>

theorem getinfo_forwarders_pass_destination:
  "(curl_easy_getinfo_double (traced lib) curl info dst tw = Some (rc, tw') \<longrightarrow>
      calls_of tw' = calls_of tw @ [GetinfoCall curl info (DoublePtr dst)])
   \<and> (curl_easy_getinfo_long (traced lib) curl info dst tw = Some (rc, tw') \<longrightarrow>
      calls_of tw' = calls_of tw @ [GetinfoCall curl info (LongPtr dst)])
   \<and> map_option (\<lambda>(rc, w'). (rc, heap w' dst)) (curl_easy_getinfo_double lib curl info dst w) =
       map_option (\<lambda>(rc, w'). (rc, heap w' dst)) (curl_easy_getinfo lib curl info (DoublePtr dst) w)
   \<and> map_option (\<lambda>(rc, w'). (rc, heap w' dst)) (curl_easy_getinfo_long lib curl info dst w) =
       map_option (\<lambda>(rc, w'). (rc, heap w' dst)) (curl_easy_getinfo lib curl info (LongPtr dst) w)"
proof -
  have d: "curl_easy_getinfo_double (traced lib) curl info dst tw =
      logged (GetinfoCall curl info (DoublePtr dst)) tw
        (curl_easy_getinfo lib curl info (DoublePtr dst) (untraced tw))"
    by (simp add: curl_easy_getinfo_double_def traced_def)
  have l: "curl_easy_getinfo_long (traced lib) curl info dst tw =
      logged (GetinfoCall curl info (LongPtr dst)) tw
        (curl_easy_getinfo lib curl info (LongPtr dst) (untraced tw))"
    by (simp add: curl_easy_getinfo_long_def traced_def)
  have seen: "(curl_easy_getinfo_double (traced lib) curl info dst tw = Some (rc, tw') \<longrightarrow>
      calls_of tw' = calls_of tw @ [GetinfoCall curl info (DoublePtr dst)])
   \<and> (curl_easy_getinfo_long (traced lib) curl info dst tw = Some (rc, tw') \<longrightarrow>
      calls_of tw' = calls_of tw @ [GetinfoCall curl info (LongPtr dst)])"
    by (auto simp: d l logged_Some calls_of_retraced)
  then show ?thesis
    by (simp add: curl_easy_getinfo_double_def curl_easy_getinfo_long_def)
qed

text \<open>
  On the test double, with a live handle: the response code 200 arrives at the
  destination \<open>0x2000\<close>, the status is \<^verbatim>\<open>CURLE_OK\<close>, and the library has seen one call,
  with that destination.
\<close>

theorem getinfo_forwarders_pass_destination_witness:
  "curl_easy_getinfo_long (traced stub) 0x1000 CURLINFO_RESPONSE_CODE 0x2000 fresh_traced =
     Some (CURLE_OK, retraced [GetinfoCall 0x1000 CURLINFO_RESPONSE_CODE (LongPtr 0x2000)]
       (fresh\<lparr>heap := Map.empty(0x2000 \<mapsto> LongObj 200)\<rparr>))
   \<and> calls_of (retraced [GetinfoCall 0x1000 CURLINFO_RESPONSE_CODE (LongPtr 0x2000)]
       (fresh\<lparr>heap := Map.empty(0x2000 \<mapsto> LongObj 200)\<rparr>)) =
     calls_of fresh_traced @ [GetinfoCall 0x1000 CURLINFO_RESPONSE_CODE (LongPtr 0x2000)]
   \<and> map_option (\<lambda>(rc, w'). (rc, heap w' 0x2000))
       (curl_easy_getinfo_long stub 0x1000 CURLINFO_RESPONSE_CODE 0x2000 fresh) =
     Some (CURLE_OK, Some (LongObj 200))
   \<and> map_option (\<lambda>(rc, w'). (rc, heap w' 0x3000))
       (curl_easy_getinfo_double stub 0x1000 CURLINFO_TOTAL_TIME 0x3000 fresh) =
     Some (CURLE_OK, Some (DoubleObj 0x3FF8000000000000))"
proof -
  let ?c = "GetinfoCall 0x1000 CURLINFO_RESPONSE_CODE (LongPtr 0x2000)"
  let ?w = "retraced [?c] (fresh\<lparr>heap := Map.empty(0x2000 \<mapsto> LongObj 200)\<rparr>)"
  have run: "curl_easy_getinfo_long (traced stub) 0x1000 CURLINFO_RESPONSE_CODE 0x2000
      fresh_traced = Some (CURLE_OK, ?w)"
    by (simp add: curl_easy_getinfo_long_def traced_def stub_def logged_def untraced_def
        retraced_def calls_of_def fresh_traced_def fresh_def NULL_def)
  from getinfo_forwarders_pass_destination
    [of stub "0x1000" CURLINFO_RESPONSE_CODE "0x2000" fresh_traced CURLE_OK ?w fresh] run
  have "calls_of ?w = calls_of fresh_traced @ [?c]"
    and "map_option (\<lambda>(rc, w'). (rc, heap w' 0x2000))
       (curl_easy_getinfo_long stub 0x1000 CURLINFO_RESPONSE_CODE 0x2000 fresh) =
     Some (CURLE_OK, Some (LongObj 200))"
    by (simp_all add: stub_def fresh_def NULL_def)
  moreover from getinfo_forwarders_pass_destination
    [of stub "0x1000" CURLINFO_TOTAL_TIME "0x3000" fresh_traced CURLE_OK ?w fresh]
  have "map_option (\<lambda>(rc, w'). (rc, heap w' 0x3000))
       (curl_easy_getinfo_double stub 0x1000 CURLINFO_TOTAL_TIME 0x3000 fresh) =
     Some (CURLE_OK, Some (DoubleObj 0x3FF8000000000000))"
    by (simp add: stub_def fresh_def NULL_def)
  ultimately show ?thesis using run by simp
qed

subsection \<open>The value is forwarded as received\<close>



subsection \<open>Status codes are propagated verbatim\<close>

text \<open>
  C4. For every forwarder, the status code returned to the caller is the code the
  delegated call returned: the same code when the library returns, whatever the code
  (first conjunct). The code is never made up or remapped, and there is no retry or
  other recovery: an invocation that returns \<open>rc\<close> has made one call to the library,
  and \<open>rc\<close> is what that call returned (second conjunct).
\<close>

theorem status_code_propagated_verbatim:
  "map_option fst (invoke lib i w) = map_option fst (perform lib (generic_call i) w)
   \<and> (invoke (traced lib) i tw = Some (rc, tw') \<longrightarrow>
        length (calls_of tw') = Suc (length (calls_of tw))
        \<and> map_option fst (perform lib (last (calls_of tw')) (untraced tw)) = Some rc)"
  by (auto simp: invoke_generic_call perform_traced logged_Some calls_of_retraced)

text \<open>
  A null handle: the test double answers \<^verbatim>\<open>CURLE_BAD_FUNCTION_ARGUMENT\<close>, and that is
  what the caller gets, after one call.
\<close>

theorem status_code_propagated_verbatim_witness:
  "invoke (traced stub) (Setopt_long NULL CURLOPT_TIMEOUT 30) fresh_traced =
     Some (CURLE_BAD_FUNCTION_ARGUMENT,
       retraced [SetoptCall NULL CURLOPT_TIMEOUT (Long 30)] fresh)
   \<and> map_option fst (invoke stub (Setopt_long NULL CURLOPT_TIMEOUT 30) fresh) =
     Some CURLE_BAD_FUNCTION_ARGUMENT
   \<and> length (calls_of (retraced [SetoptCall NULL CURLOPT_TIMEOUT (Long 30)] fresh)) =
     Suc (length (calls_of fresh_traced))
   \<and> map_option fst (perform stub
       (last (calls_of (retraced [SetoptCall NULL CURLOPT_TIMEOUT (Long 30)] fresh)))
       (untraced fresh_traced)) = Some CURLE_BAD_FUNCTION_ARGUMENT"
proof -
  let ?i = "Setopt_long NULL CURLOPT_TIMEOUT 30"
  let ?w = "retraced [SetoptCall NULL CURLOPT_TIMEOUT (Long 30)] fresh"
  have run: "invoke (traced stub) ?i fresh_traced = Some (CURLE_BAD_FUNCTION_ARGUMENT, ?w)"
    by (simp add: curl_easy_setopt_long_def traced_def stub_def logged_def untraced_def
        retraced_def calls_of_def fresh_traced_def fresh_def NULL_def)
  from status_code_propagated_verbatim
    [of stub ?i fresh fresh_traced CURLE_BAD_FUNCTION_ARGUMENT ?w] run
  have "map_option fst (invoke stub ?i fresh) = Some CURLE_BAD_FUNCTION_ARGUMENT"
    and "length (calls_of ?w) = Suc (length (calls_of fresh_traced))"
    and "map_option fst (perform stub (last (calls_of ?w)) (untraced fresh_traced)) =
      Some CURLE_BAD_FUNCTION_ARGUMENT"
    by (simp_all add: stub_def NULL_def)
  with run show ?thesis by simp
qed

subsection \<open>The delegated call is the only effect\<close>

text \<open>
  C5. For every invocation of a forwarder, the effect is that of the one delegated
  call and nothing else. The outcome and the world left behind (memory and the
  library's state) are those of the generic call on the world the invocation started
  in (first conjunct); seen from the library, the invocation is one call, the generic
  one, appended to the calls received before (second conjunct); and where that call
  leaves the world as it was, so does the forwarder (third conjunct). The shim has no
  state of its own to read or write: the source declares none, and the world has no
  such component.
\<close>

theorem delegated_call_is_only_effect:
  "invoke lib i w = perform lib (generic_call i) w
   \<and> invoke (traced lib) i tw =
       logged (generic_call i) tw (perform lib (generic_call i) (untraced tw))
   \<and> (perform lib (generic_call i) w = Some (rc, w) \<longrightarrow> invoke lib i w = Some (rc, w))"
  by (simp add: invoke_generic_call perform_traced)

text \<open>
  Setting an option on the test double: afterwards the library's state holds that
  option, memory is as before, and the library has seen one call. Asking the null
  handle for information changes nothing.
\<close>

theorem delegated_call_is_only_effect_witness:
  "invoke stub (Setopt_pointer 0x1000 CURLOPT_WRITEDATA 0x5000) fresh =
     Some (CURLE_OK, fresh\<lparr>libstate := [(CURLOPT_WRITEDATA, VoidPtr 0x5000)]\<rparr>)
   \<and> invoke (traced stub) (Setopt_pointer 0x1000 CURLOPT_WRITEDATA 0x5000) fresh_traced =
     Some (CURLE_OK, retraced [SetoptCall 0x1000 CURLOPT_WRITEDATA (VoidPtr 0x5000)]
       (fresh\<lparr>libstate := [(CURLOPT_WRITEDATA, VoidPtr 0x5000)]\<rparr>))
   \<and> perform stub (generic_call (Getinfo_double NULL CURLINFO_TOTAL_TIME 0x3000)) fresh =
     Some (CURLE_BAD_FUNCTION_ARGUMENT, fresh)
   \<and> invoke stub (Getinfo_double NULL CURLINFO_TOTAL_TIME 0x3000) fresh =
     Some (CURLE_BAD_FUNCTION_ARGUMENT, fresh)"
proof -
  let ?i = "Setopt_pointer 0x1000 CURLOPT_WRITEDATA 0x5000"
  let ?j = "Getinfo_double NULL CURLINFO_TOTAL_TIME 0x3000"
  have untr: "untraced fresh_traced = fresh"
    by (simp add: untraced_def fresh_traced_def fresh_def)
  have calls: "calls_of fresh_traced = []"
    by (simp add: calls_of_def fresh_traced_def)
  from delegated_call_is_only_effect [of stub ?i fresh fresh_traced CURLE_OK]
  have "invoke stub ?i fresh =
      Some (CURLE_OK, fresh\<lparr>libstate := [(CURLOPT_WRITEDATA, VoidPtr 0x5000)]\<rparr>)"
    and "invoke (traced stub) ?i fresh_traced =
      Some (CURLE_OK, retraced [SetoptCall 0x1000 CURLOPT_WRITEDATA (VoidPtr 0x5000)]
        (fresh\<lparr>libstate := [(CURLOPT_WRITEDATA, VoidPtr 0x5000)]\<rparr>))"
    by (simp_all add: untr calls logged_def stub_def fresh_def NULL_def)
  moreover have still: "perform stub (generic_call ?j) fresh =
      Some (CURLE_BAD_FUNCTION_ARGUMENT, fresh)"
    by (simp add: stub_def NULL_def)
  moreover from delegated_call_is_only_effect
    [of stub ?j fresh fresh_traced CURLE_BAD_FUNCTION_ARGUMENT] still
  have "invoke stub ?j fresh = Some (CURLE_BAD_FUNCTION_ARGUMENT, fresh)"
    by blast
  ultimately show ?thesis by blast
qed

subsection \<open>Two runs\<close>



subsection \<open>The two write-callback forwarders\<close>

text \<open>
  C9. \<^verbatim>\<open>curl_easy_setopt_write_callback\<close> and \<^verbatim>\<open>curl_easy_setopt_header_callback\<close> are
  the same function of the library, the world, the handle, the option identifier and
  the callback: their parameters have the same C type, so for every input they make
  the same call to \<^verbatim>\<open>curl_easy_setopt\<close> and return the same result. Only the names
  differ.
\<close>

theorem write_and_header_callback_forwarders_equal:
  "curl_easy_setopt_write_callback lib curl option callback w =
     curl_easy_setopt_header_callback lib curl option callback w
   \<and> generic_call (Setopt_write_callback curl option callback) =
     generic_call (Setopt_header_callback curl option callback)
   \<and> during tw (curl_easy_setopt_write_callback (traced lib) curl option callback tw) =
     during tw (curl_easy_setopt_header_callback (traced lib) curl option callback tw)"
  by (simp add: curl_easy_setopt_write_callback_def curl_easy_setopt_header_callback_def)

text \<open>
  Registering the same callback through either function, for the header option of the
  test double: the same outcome, and the library cannot tell the two calls apart.
\<close>

theorem write_and_header_callback_forwarders_equal_witness:
  "curl_easy_setopt_write_callback stub 0x1000 CURLOPT_HEADERFUNCTION 0x6000 fresh =
     Some (CURLE_OK, fresh\<lparr>libstate := [(CURLOPT_HEADERFUNCTION, WriteFn 0x6000)]\<rparr>)
   \<and> curl_easy_setopt_header_callback stub 0x1000 CURLOPT_HEADERFUNCTION 0x6000 fresh =
     Some (CURLE_OK, fresh\<lparr>libstate := [(CURLOPT_HEADERFUNCTION, WriteFn 0x6000)]\<rparr>)"
proof -
  have "curl_easy_setopt_header_callback stub 0x1000 CURLOPT_HEADERFUNCTION 0x6000 fresh =
      Some (CURLE_OK, fresh\<lparr>libstate := [(CURLOPT_HEADERFUNCTION, WriteFn 0x6000)]\<rparr>)"
    by (simp add: curl_easy_setopt_header_callback_def stub_def fresh_def NULL_def)
  with write_and_header_callback_forwarders_equal
    [of stub "0x1000" CURLOPT_HEADERFUNCTION "0x6000" fresh fresh_traced]
  show ?thesis by simp
qed

subsection \<open>Termination\<close>

text \<open>
  C10. Every forwarder is a non-recursive function without a loop (each is a plain
  definition, with one call of the library on its right-hand side), defined on every
  input: null handles, null strings, null pointers, null callbacks and null
  destinations are passed on unchecked. An invocation returns whenever the one
  wrapped call it makes returns.
\<close>

theorem forwarder_returns_when_library_returns:
  "\<exists>r. perform lib (generic_call i) w = Some r \<Longrightarrow> \<exists>r. invoke lib i w = Some r"
  by (simp add: invoke_generic_call)

text \<open>
  All-null arguments on the test double: each wrapped call returns, and so does each
  forwarder.
\<close>

theorem forwarder_returns_when_library_returns_witness:
  "(\<exists>r. perform stub (generic_call (Setopt_string NULL CURLOPT_URL NULL)) fresh = Some r)
   \<and> (\<exists>r. invoke stub (Setopt_string NULL CURLOPT_URL NULL) fresh = Some r)
   \<and> (\<exists>r. perform stub (generic_call (Setopt_write_callback 0x1000 CURLOPT_WRITEFUNCTION NULL))
         fresh = Some r)
   \<and> (\<exists>r. invoke stub (Setopt_write_callback 0x1000 CURLOPT_WRITEFUNCTION NULL) fresh = Some r)
   \<and> (\<exists>r. perform stub (generic_call (Getinfo_long 0x1000 CURLINFO_RESPONSE_CODE NULL))
         fresh = Some r)
   \<and> (\<exists>r. invoke stub (Getinfo_long 0x1000 CURLINFO_RESPONSE_CODE NULL) fresh = Some r)"
proof -
  let ?a = "Setopt_string NULL CURLOPT_URL NULL"
  let ?b = "Setopt_write_callback 0x1000 CURLOPT_WRITEFUNCTION NULL"
  let ?c = "Getinfo_long 0x1000 CURLINFO_RESPONSE_CODE NULL"
  have a: "\<exists>r. perform stub (generic_call ?a) fresh = Some r"
    by (simp add: stub_def)
  have b: "\<exists>r. perform stub (generic_call ?b) fresh = Some r"
    by (simp add: stub_def)
  have c: "\<exists>r. perform stub (generic_call ?c) fresh = Some r"
    by (simp add: stub_def)
  from a b c
    forwarder_returns_when_library_returns [OF a]
    forwarder_returns_when_library_returns [OF b]
    forwarder_returns_when_library_returns [OF c]
  show ?thesis by blast
qed

subsection \<open>The exported interface is the nine listed functions\<close>

text \<open>
  C6. The header declares nine functions and the source file defines the same nine,
  with the same signatures and no others. Taken in order, they serve the nine pairs of
  the specification's list, one function per pair: configuration with a long, a string,
  a generic pointer and a 64-bit integer, registration of a data-write, a header-write
  and a progress callback, and retrieval into a double and a long. The pairs are
  pairwise different, the names are pairwise different, and no parameter list is
  variadic.
\<close>

theorem exported_interface_is_nine_listed_functions:
  "map classify CurlShims_h = map Some spec_interface
   \<and> distinct spec_interface
   \<and> length CurlShims_h = 9
   \<and> distinct (map fn_name CurlShims_h)
   \<and> list_all (\<lambda>p. \<not> fn_variadic p \<and> length (fn_params p) = 3) CurlShims_h
   \<and> CurlShims_c = CurlShims_h"
proof -
  have "map classify CurlShims_h = map Some spec_interface"
    by (simp add: CurlShims_h_def spec_interface_def classify_def
        write_callback_t_def progress_callback_t_def)
  moreover have "distinct spec_interface"
    by (simp add: spec_interface_def)
  moreover have "length CurlShims_h = 9"
    by (simp add: CurlShims_h_def)
  moreover have "distinct (map fn_name CurlShims_h)"
    by (simp add: CurlShims_h_def)
  moreover have "list_all (\<lambda>p. \<not> fn_variadic p \<and> length (fn_params p) = 3) CurlShims_h"
    by (simp add: CurlShims_h_def)
  moreover have "CurlShims_c = CurlShims_h"
    by (simp add: CurlShims_c_def CurlShims_h_def)
  ultimately show ?thesis by blast
qed

end
